theory Spec2Isabelle
  imports Complex_Main
begin

section \<open>The critical-fee solver of \<^verbatim>\<open>src/client/solver.py\<close>\<close>

text \<open>
  The class \<^verbatim>\<open>ProductionHJISolver\<close> reads a configuration, reads the pool state
  from the chain, runs \<^verbatim>\<open>solve_phi_crit\<close> once per configured ratio tier and
  submits the resulting fee tiers. This theory embeds \<^verbatim>\<open>solve_phi_crit\<close>
  (with its nested \<^verbatim>\<open>max_profit_for_phi\<close>) and the computing part of
  \<^verbatim>\<open>sync_to_chain\<close>.

  Conventions of the embedding:
  \<^item> Python integers are \<open>int\<close>. A finite float is modelled as a \<open>real\<close>, that is
    with exact arithmetic: the rounding of IEEE doubles is not part of the model. The
    value of the objective, which the library computes on \<^verbatim>\<open>numpy.float64\<close>, can
    also be an infinity or NaN (a division by zero raises nothing there); it is an
    \<open>fval\<close>.
  \<^item> A raised exception is the \<open>Inl\<close> branch of a sum.
  \<^item> \<^verbatim>\<open>scipy.optimize.minimize_scalar\<close> is a library outside the repository. It
    is a parameter of the model: a function from the objective and the bounds to the field
    \<^verbatim>\<open>fun\<close> of its result (or to the exception it raises).
  \<^item> The chain reads of \<^verbatim>\<open>get_realtime_state\<close> are an argument of
    \<^verbatim>\<open>sync_to_chain\<close>; the transaction that publishes the tiers is represented by
    its payload.
\<close>

subsection \<open>Data\<close>

text \<open>
  The exceptions of the model: \<open>ValueError\<close> is what the library raises on bounds in
  the wrong order, \<open>LibraryError\<close> stands for any other exception of the library.
\<close>

datatype error = ValueError | LibraryError

text \<open>
  A float value: a finite number, an infinity or NaN. \<open>fneg\<close> is the unary minus and
  \<open>fpos x\<close> the comparison \<^verbatim>\<open>x > 0\<close>, which is false on NaN.
\<close>

datatype fval = Fin real | PInf | NInf | NaN

fun fneg :: "fval \<Rightarrow> fval" where
  "fneg (Fin x) = Fin (- x)"
| "fneg PInf = NInf"
| "fneg NInf = PInf"
| "fneg NaN = NaN"

fun fpos :: "fval \<Rightarrow> bool" where
  "fpos (Fin x) = (x > 0)"
| "fpos PInf = True"
| "fpos NInf = False"
| "fpos NaN = False"

text \<open>
  The entries of \<^verbatim>\<open>self.cfg\<close> that the solver reads:
  \<^verbatim>\<open>cfg['strategy']['ratio_tiers']\<close> and the three entries of
  \<^verbatim>\<open>cfg['market_assumptions']\<close>.
\<close>

record config =
  ratio_tiers :: "int list"
  jit_gas_usage :: int
  kappa :: real
  v_swap_nominal :: real

text \<open>One element of \<^verbatim>\<open>tiers_payload\<close>.\<close>

record fee_tier =
  thresholdRatioBps :: int
  feePips :: int

type_synonym objective = "real \<Rightarrow> fval"

type_synonym optimizer = "objective \<Rightarrow> real \<times> real \<Rightarrow> error + fval"

subsection \<open>\<^verbatim>\<open>solve_phi_crit\<close>\<close>

text \<open>\<^verbatim>\<open>alpha = (L_active * ratio_bps) / 10000\<close>\<close>

definition alpha :: "int \<Rightarrow> int \<Rightarrow> real" where
  "alpha L_active ratio_bps = real_of_int (L_active * ratio_bps) / 10000"

text \<open>\<^verbatim>\<open>c_gas_eth = (gas_price * self.cfg['market_assumptions']['jit_gas_usage']) / 1e18\<close>\<close>

definition c_gas_eth :: "config \<Rightarrow> int \<Rightarrow> real" where
  "c_gas_eth cfg gas_price = real_of_int (gas_price * jit_gas_usage cfg) / 10 ^ 18"

text \<open>
  The lambda handed to the optimizer:
  \<^verbatim>\<open>lambda a: -(phi * (a / (L_active + a)) * v_swap - (c_gas_eth + 0.5 * kappa * a**2))\<close>.
  The library calls it with a \<^verbatim>\<open>numpy.float64\<close>, so where \<^verbatim>\<open>L_active + a\<close> is
  zero the quotient is NaN for \<^verbatim>\<open>a = 0\<close> and an infinity with the sign of \<open>a\<close>
  otherwise. The products with \<open>phi\<close> and \<open>v_swap\<close> keep an infinity, with the product
  of the signs, unless a factor is zero, which gives NaN; the subtraction of the finite
  cost keeps it, and the outer minus turns its sign.
\<close>

definition neg_profit :: "config \<Rightarrow> int \<Rightarrow> int \<Rightarrow> real \<Rightarrow> real \<Rightarrow> objective" where
  "neg_profit cfg L_active gas_price v_swap phi a =
     (if real_of_int L_active + a = 0 then
        (if a = 0 \<or> phi = 0 \<or> v_swap = 0 then NaN
         else if phi * a * v_swap > 0 then NInf else PInf)
      else Fin (- (phi * (a / (real_of_int L_active + a)) * v_swap
                   - (c_gas_eth cfg gas_price + 0.5 * kappa cfg * a\<^sup>2))))"

text \<open>
  \<^verbatim>\<open>max_profit_for_phi\<close>: the optimizer runs on the bounds
  \<^verbatim>\<open>(alpha * 0.8, alpha * 1.2)\<close> and the function returns \<^verbatim>\<open>-res.fun\<close>.
\<close>

definition max_profit_for_phi ::
  "optimizer \<Rightarrow> config \<Rightarrow> int \<Rightarrow> int \<Rightarrow> int \<Rightarrow> real \<Rightarrow> real \<Rightarrow> error + fval" where
  "max_profit_for_phi minimize_scalar cfg ratio_bps L_active gas_price v_swap phi =
     (case minimize_scalar (neg_profit cfg L_active gas_price v_swap phi)
             (alpha L_active ratio_bps * 0.8, alpha L_active ratio_bps * 1.2) of
        Inl e \<Rightarrow> Inl e
      | Inr res_fun \<Rightarrow> Inr (fneg res_fun))"

text \<open>
  The loop \<^verbatim>\<open>for _ in range(20)\<close>, with the number of iterations still to run
  as the recursion argument. An exception inside the loop leaves it.
\<close>

fun bisect :: "(real \<Rightarrow> error + fval) \<Rightarrow> nat \<Rightarrow> real \<Rightarrow> real \<Rightarrow> error + real" where
  "bisect max_profit 0 low high = Inr high"
| "bisect max_profit (Suc n) low high =
     (let mid = (low + high) / 2 in
      case max_profit mid of
        Inl e \<Rightarrow> Inl e
      | Inr p \<Rightarrow> if fpos p then bisect max_profit n mid high
                 else bisect max_profit n low mid)"

definition solve_phi_crit ::
  "optimizer \<Rightarrow> config \<Rightarrow> int \<Rightarrow> int \<Rightarrow> int \<Rightarrow> real \<Rightarrow> error + real" where
  "solve_phi_crit minimize_scalar cfg ratio_bps L_active gas_price v_swap =
     bisect (max_profit_for_phi minimize_scalar cfg ratio_bps L_active gas_price v_swap)
       20 0.0005 0.1"

text \<open>
  The same loop, also recording the fee rates at which \<^verbatim>\<open>max_profit_for_phi\<close>
  is called, one per iteration that is entered.
\<close>

fun bisect_log ::
  "(real \<Rightarrow> error + fval) \<Rightarrow> nat \<Rightarrow> real \<Rightarrow> real \<Rightarrow> real list \<times> (error + real)" where
  "bisect_log max_profit 0 low high = ([], Inr high)"
| "bisect_log max_profit (Suc n) low high =
     (let mid = (low + high) / 2 in
      case max_profit mid of
        Inl e \<Rightarrow> ([mid], Inl e)
      | Inr p \<Rightarrow> if fpos p then apfst ((#) mid) (bisect_log max_profit n mid high)
                 else apfst ((#) mid) (bisect_log max_profit n low mid))"

definition solve_phi_crit_log ::
  "optimizer \<Rightarrow> config \<Rightarrow> int \<Rightarrow> int \<Rightarrow> int \<Rightarrow> real \<Rightarrow> real list \<times> (error + real)" where
  "solve_phi_crit_log minimize_scalar cfg ratio_bps L_active gas_price v_swap =
     bisect_log (max_profit_for_phi minimize_scalar cfg ratio_bps L_active gas_price v_swap)
       20 0.0005 0.1"

subsection \<open>\<^verbatim>\<open>sync_to_chain\<close>\<close>

text \<open>Python's \<^verbatim>\<open>int(x)\<close> on a float: truncation towards zero.\<close>

definition py_int :: "real \<Rightarrow> int" where
  "py_int x = (if 0 \<le> x then \<lfloor>x\<rfloor> else \<lceil>x\<rceil>)"

text \<open>
  The loop over \<^verbatim>\<open>self.cfg['strategy']['ratio_tiers']\<close>; \<open>tiers_payload\<close> is
  the list built so far.
\<close>

fun tiers_loop ::
  "optimizer \<Rightarrow> config \<Rightarrow> int \<Rightarrow> int \<Rightarrow> int list \<Rightarrow> fee_tier list \<Rightarrow> error + fee_tier list" where
  "tiers_loop minimize_scalar cfg L gp [] tiers_payload = Inr tiers_payload"
| "tiers_loop minimize_scalar cfg L gp (r # rs) tiers_payload =
     (case solve_phi_crit minimize_scalar cfg r L gp (v_swap_nominal cfg) of
        Inl e \<Rightarrow> Inl e
      | Inr phi \<Rightarrow>
          tiers_loop minimize_scalar cfg L gp rs
            (tiers_payload @ [\<lparr>thresholdRatioBps = r, feePips = py_int (phi * 1000000)\<rparr>]))"

text \<open>
  \<^verbatim>\<open>sync_to_chain\<close>, given the triple \<^verbatim>\<open>(L, tick, gp)\<close> that
  \<^verbatim>\<open>get_realtime_state\<close> returned. The result is \<open>None\<close> when the method
  returns before anything is computed, and \<open>Some\<close> of the payload handed to
  \<^verbatim>\<open>setFeeTiers\<close> otherwise.
\<close>

definition sync_to_chain ::
  "optimizer \<Rightarrow> config \<Rightarrow> int \<times> int \<times> int \<Rightarrow> error + fee_tier list option" where
  "sync_to_chain minimize_scalar cfg state =
     (case state of (L, tick, gp) \<Rightarrow>
        if L = 0 then Inr None
        else (case tiers_loop minimize_scalar cfg L gp (ratio_tiers cfg) [] of
                Inl e \<Rightarrow> Inl e
              | Inr tiers_payload \<Rightarrow> Inr (Some tiers_payload)))"

text \<open>\<open>entry\<close> is the record that one pass of the loop body appends for the tier \<open>r\<close>.\<close>

definition tier_entry :: "optimizer \<Rightarrow> config \<Rightarrow> int \<Rightarrow> int \<Rightarrow> int \<Rightarrow> fee_tier \<Rightarrow> bool" where
  "tier_entry minimize_scalar cfg L gp r entry \<longleftrightarrow>
     (\<exists>phi. solve_phi_crit minimize_scalar cfg r L gp (v_swap_nominal cfg) = Inr phi \<and>
        entry = \<lparr>thresholdRatioBps = r, feePips = py_int (phi * 1000000)\<rparr>)"

section \<open>What the specification says\<close>

text \<open>
  The profit model in the words of the specification:
  \<open>gasCostInValueUnits = gasPrice * gasUsagePerAttack / WEI_PER_UNIT\<close> with
  \<open>WEI_PER_UNIT = 1e18\<close>,
  \<open>profit(phi, a) = phi * (a / (activeLiquidity + a)) * nominalSwapVolume
     - (gasCostInValueUnits + 0.5 * kappa * a^2)\<close> and
  \<open>alpha = activeLiquidity * ratioBps / 10000\<close>.
\<close>

definition WEI_PER_UNIT :: real where
  "WEI_PER_UNIT = 1000000000000000000"

definition gasCostInValueUnits :: "config \<Rightarrow> int \<Rightarrow> real" where
  "gasCostInValueUnits cfg gasPrice =
     real_of_int gasPrice * real_of_int (jit_gas_usage cfg) / WEI_PER_UNIT"

definition spec_profit :: "config \<Rightarrow> int \<Rightarrow> int \<Rightarrow> real \<Rightarrow> real \<Rightarrow> real \<Rightarrow> real" where
  "spec_profit cfg activeLiquidity gasPrice nominalSwapVolume phi a =
     phi * (a / (real_of_int activeLiquidity + a)) * nominalSwapVolume
     - (gasCostInValueUnits cfg gasPrice + 0.5 * kappa cfg * a\<^sup>2)"

definition spec_alpha :: "int \<Rightarrow> int \<Rightarrow> real" where
  "spec_alpha activeLiquidity ratioBps =
     real_of_int activeLiquidity * real_of_int ratioBps / 10000"

text \<open>\<open>m\<close> is the greatest value of \<open>f\<close> on the set \<open>S\<close>, and it is attained.\<close>

definition is_maximum_on :: "(real \<Rightarrow> real) \<Rightarrow> real set \<Rightarrow> real \<Rightarrow> bool" where
  "is_maximum_on f S m \<longleftrightarrow> (\<exists>a\<in>S. f a = m) \<and> (\<forall>a\<in>S. f a \<le> m)"


text \<open>
  The outer search in the words of the specification: start from \<open>low = 0.0005\<close> and
  \<open>high = 0.1\<close>; on each of 20 iterations compute \<open>mid = (low + high) / 2\<close>, set
  \<open>low = mid\<close> if \<open>maxProfit(mid) > 0\<close> and \<open>high = mid\<close> otherwise; return
  \<open>high\<close>.
\<close>

definition spec_bisection_step :: "(real \<Rightarrow> real) \<Rightarrow> real \<times> real \<Rightarrow> real \<times> real" where
  "spec_bisection_step maxProfit lh =
     (let low = fst lh; high = snd lh; mid = (low + high) / 2
      in if maxProfit mid > 0 then (mid, high) else (low, mid))"

definition spec_outer_search :: "(real \<Rightarrow> real) \<Rightarrow> real" where
  "spec_outer_search maxProfit = snd ((spec_bisection_step maxProfit ^^ 20) (0.0005, 0.1))"

text \<open>The midpoint that the iteration number \<open>i\<close> (from 0) of that search tests.\<close>

definition spec_midpoint :: "(real \<Rightarrow> real) \<Rightarrow> nat \<Rightarrow> real" where
  "spec_midpoint maxProfit i =
     (let lh = (spec_bisection_step maxProfit ^^ i) (0.0005, 0.1) in (fst lh + snd lh) / 2)"

section \<open>Assumptions on the optimizer\<close>

text \<open>
  Properties of \<^verbatim>\<open>minimize_scalar\<close> that theorems below assume where they need
  them.
  \<^item> \<open>optimizer_returns\<close>: on bounds in order the optimizer returns a value.
  \<^item> \<open>evaluates_inside\<close>: on bounds \<open>x1 < x2\<close> the value returned is the value of the
    objective at a point strictly between the bounds, as the library's bounded method
    returns the objective at the point where it stops and never evaluates an endpoint.
  \<^item> \<open>decides_profitability\<close>, for one tier: at every fee rate of the search interval
    the inner maximisation returns, and its result is positive exactly when the attack is
    profitable there. An exact maximum has this property; an approximate one has it
    unless the true maximum is within its error of zero.
\<close>

definition optimizer_returns :: "optimizer \<Rightarrow> bool" where
  "optimizer_returns minimize_scalar \<longleftrightarrow>
     (\<forall>f x1 x2. x1 \<le> x2 \<longrightarrow> (\<exists>m. minimize_scalar f (x1, x2) = Inr m))"

definition evaluates_inside :: "optimizer \<Rightarrow> bool" where
  "evaluates_inside minimize_scalar \<longleftrightarrow>
     (\<forall>f x1 x2. x1 < x2 \<longrightarrow> (\<exists>x. x1 < x \<and> x < x2 \<and> minimize_scalar f (x1, x2) = Inr (f x)))"


section \<open>Example inputs\<close>

text \<open>
  Modelled from the spec: the bounded one-dimensional minimizer of the inner search,
  which the code takes from a library outside the repository. The specification allows
  any derivative-free bracketing method. This one raises on bounds in the wrong order,
  as the library does, and otherwise narrows the bracket 40 times to two thirds, keeping
  the side of the smaller of two interior values (a comparison with NaN is false), and
  returns the objective at the middle of the last bracket. Like the library's method it
  evaluates the objective only strictly inside the bounds. The runs of the scenario
  below are proved for every optimizer with the property \<open>evaluates_inside\<close>, and
  this minimizer is one.
\<close>

fun fless :: "fval \<Rightarrow> fval \<Rightarrow> bool" where
  "fless (Fin x) (Fin y) = (x < y)"
| "fless NInf (Fin y) = True"
| "fless NInf PInf = True"
| "fless (Fin x) PInf = True"
| "fless x y = False"

fun trisect :: "nat \<Rightarrow> objective \<Rightarrow> real \<Rightarrow> real \<Rightarrow> fval" where
  "trisect 0 f a b = f ((a + b) / 2)"
| "trisect (Suc n) f a b =
     (let x1 = a + (b - a) / 3; x2 = b - (b - a) / 3 in
      if fless (f x1) (f x2) then trisect n f a x2 else trisect n f x1 b)"

definition bracketing_minimizer :: optimizer where
  "bracketing_minimizer f bounds =
     (case bounds of (x1, x2) \<Rightarrow> if x1 > x2 then Inl ValueError else Inr (trisect 40 f x1 x2))"

text \<open>
  The convergence scenario of the specification: liquidity \<open>1000000\<close>, gas price
  \<open>30e9\<close>, gas usage \<open>300000\<close>, \<open>kappa = 1e-6\<close>, swap volume \<open>10\<close>.
\<close>

definition scenario_cfg :: config where
  "scenario_cfg = \<lparr>ratio_tiers = [10, 50, 200], jit_gas_usage = 300000,
     kappa = 1 / 1000000, v_swap_nominal = 10\<rparr>"

text \<open>
  The value that \<^verbatim>\<open>max_profit_for_phi\<close> returns in the scenario at the tier 50,
  as a function of the fee rate.
\<close>

definition scenario_max_profit :: "real \<Rightarrow> real" where
  "scenario_max_profit phi =
     (case max_profit_for_phi bracketing_minimizer scenario_cfg 50 1000000 30000000000 10 phi of
        Inr (Fin x) \<Rightarrow> x
      | _ \<Rightarrow> 0)"

section \<open>Zero liquidity\<close>

text \<open>
  C5. When the liquidity read from the chain is 0, \<^verbatim>\<open>sync_to_chain\<close> returns at
  once: whatever the optimizer, the configuration, the tick and the gas price are, no
  exception is raised, no fee tier is computed and nothing is handed to
  \<^verbatim>\<open>setFeeTiers\<close>. The result does not depend on the optimizer, so the solver is
  not run.
\<close>

theorem sync_to_chain_zero_liquidity:
  "sync_to_chain minimize_scalar cfg (0, tick, gp) = Inr None"
  by (simp add: sync_to_chain_def)

section \<open>The bisection loop\<close>

lemma bisect_Suc_pos:
  "max_profit ((low + high) / 2) = Inr p \<Longrightarrow> fpos p \<Longrightarrow>
   bisect max_profit (Suc n) low high = bisect max_profit n ((low + high) / 2) high"
  by (simp add: Let_def)

lemma bisect_Suc_nonpos:
  "max_profit ((low + high) / 2) = Inr p \<Longrightarrow> \<not> fpos p \<Longrightarrow>
   bisect max_profit (Suc n) low high = bisect max_profit n low ((low + high) / 2)"
  by (simp add: Let_def)

text \<open>The interval never collapses: the value returned is above \<open>low\<close> and at most \<open>high\<close>.\<close>

lemma bisect_range:
  "low < high \<Longrightarrow> bisect max_profit n low high = Inr phi \<Longrightarrow> low < phi \<and> phi \<le> high"
proof (induction n arbitrary: low high)
  case 0
  then show ?case by simp
next
  case (Suc n)
  let ?mid = "(low + high) / 2"
  from Suc.prems(1) have m: "low < ?mid" "?mid < high" by simp_all
  from Suc.prems(2) obtain p where p: "max_profit ?mid = Inr p"
    by (cases "max_profit ?mid") (simp_all add: Let_def)
  show ?case
  proof (cases "fpos p")
    case True
    with Suc.prems(2) p have "bisect max_profit n ?mid high = Inr phi" by (simp add: Let_def)
    from Suc.IH [OF m(2) this] m show ?thesis by simp
  next
    case False
    with Suc.prems(2) p have "bisect max_profit n low ?mid = Inr phi" by (simp add: Let_def)
    from Suc.IH [OF m(1) this] m show ?thesis by simp
  qed
qed

lemma bisect_returns:
  "(\<And>phi. \<exists>p. max_profit phi = Inr p) \<Longrightarrow> \<exists>phi. bisect max_profit n low high = Inr phi"
proof (induction n arbitrary: low high)
  case 0
  then show ?case by simp
next
  case (Suc n)
  from Suc.prems obtain p where "max_profit ((low + high) / 2) = Inr p" by blast
  with Suc.IH [OF Suc.prems] show ?case by (simp add: Let_def)
qed


text \<open>Where it is profitable at none, \<open>high\<close> is halved towards \<open>low\<close> every time.\<close>

lemma bisect_none_profitable:
  assumes "\<And>phi. low < phi \<Longrightarrow> phi < high0 \<Longrightarrow> \<exists>p. max_profit phi = Inr p \<and> \<not> fpos p"
  shows "high \<le> high0 \<Longrightarrow> low < high \<Longrightarrow>
         bisect max_profit n low high = Inr (low + (high - low) / 2 ^ n)"
proof (induction n arbitrary: high)
  case 0
  show ?case by simp
next
  case (Suc n)
  let ?mid = "(low + high) / 2"
  from Suc.prems have m: "low < ?mid" "?mid < high0" "?mid \<le> high0" by simp_all
  from assms [OF m(1,2)] obtain p where p: "max_profit ?mid = Inr p" "\<not> fpos p" by blast
  have "low + (?mid - low) / 2 ^ n = low + (high - low) / 2 ^ Suc n"
    by (simp add: field_simps)
  with Suc.IH [OF m(3,1)] bisect_Suc_nonpos [where max_profit = max_profit and low = low and high = high and n = n, OF p] show ?case by simp
qed


section \<open>The log of the loop\<close>

lemma snd_bisect_log: "snd (bisect_log max_profit n low high) = bisect max_profit n low high"
  by (induction n arbitrary: low high) (auto simp: Let_def split: sum.splits)

lemma length_bisect_log_le: "length (fst (bisect_log max_profit n low high)) \<le> n"
  by (induction n arbitrary: low high) (auto simp: Let_def split: sum.splits)

lemma length_bisect_log_returned:
  "bisect max_profit n low high = Inr phi \<Longrightarrow> length (fst (bisect_log max_profit n low high)) = n"
  by (induction n arbitrary: low high) (auto simp: Let_def split: sum.splits if_splits)

lemma bisect_log_raised:
  "bisect max_profit n low high = Inl e \<Longrightarrow>
   fst (bisect_log max_profit n low high) \<noteq> [] \<and>
   max_profit (last (fst (bisect_log max_profit n low high))) = Inl e"
  by (induction n arbitrary: low high) (auto simp: Let_def split: sum.splits if_splits)

lemma bisect_log_midpoints:
  assumes "\<And>phi. max_profit phi = Inr (Fin (maxProfit phi))"
  shows "fst (bisect_log max_profit n low high) =
         map (\<lambda>i. let lh = (spec_bisection_step maxProfit ^^ i) (low, high)
                  in (fst lh + snd lh) / 2) [0..<n]"
proof (induction n arbitrary: low high)
  case 0
  show ?case by simp
next
  case (Suc n)
  let ?mid = "(low + high) / 2"
  let ?g = "\<lambda>lh i. let x = (spec_bisection_step maxProfit ^^ i) lh in (fst x + snd x) / 2"
  have shift: "map (?g (low, high)) [0..<Suc n] =
      ?mid # map (?g (spec_bisection_step maxProfit (low, high))) [0..<n]"
  proof -
    have "map (?g (low, high)) [0..<Suc n] = ?g (low, high) 0 # map (?g (low, high) \<circ> Suc) [0..<n]"
      by (simp add: upt_conv_Cons map_Suc_upt [symmetric] del: upt_Suc)
    moreover have "?g (low, high) \<circ> Suc = ?g (spec_bisection_step maxProfit (low, high))"
      by (rule ext) (simp add: funpow_swap1 Let_def)
    ultimately show ?thesis by (simp add: Let_def)
  qed
  show ?case
  proof (cases "maxProfit ?mid > 0")
    case True
    then have "spec_bisection_step maxProfit (low, high) = (?mid, high)"
      by (simp add: spec_bisection_step_def Let_def)
    with shift Suc.IH [of ?mid high] True show ?thesis
      by (simp add: assms Let_def del: upt_Suc)
  next
    case False
    then have "spec_bisection_step maxProfit (low, high) = (low, ?mid)"
      by (simp add: spec_bisection_step_def Let_def)
    with shift Suc.IH [of low ?mid] False show ?thesis
      by (simp add: assms Let_def del: upt_Suc)
  qed
qed

section \<open>The loop and the iterated step\<close>

lemma bisect_funpow:
  assumes "\<And>phi. max_profit phi = Inr (Fin (maxProfit phi))"
  shows "bisect max_profit n low high = Inr (snd ((spec_bisection_step maxProfit ^^ n) (low, high)))"
proof (induction n arbitrary: low high)
  case 0
  show ?case by simp
next
  case (Suc n)
  let ?mid = "(low + high) / 2"
  have step: "(spec_bisection_step maxProfit ^^ Suc n) (low, high) =
              (spec_bisection_step maxProfit ^^ n) (spec_bisection_step maxProfit (low, high))"
    by (simp add: funpow_swap1)
  show ?case
  proof (cases "maxProfit ?mid > 0")
    case True
    then have "spec_bisection_step maxProfit (low, high) = (?mid, high)"
      by (simp add: spec_bisection_step_def Let_def)
    moreover from True have "fpos (Fin (maxProfit ?mid))" by simp
    note bisect_Suc_pos [where max_profit = max_profit and low = low and high = high and n = n,
        OF assms this]
    ultimately show ?thesis using step Suc.IH [of ?mid high] by simp
  next
    case False
    then have "spec_bisection_step maxProfit (low, high) = (low, ?mid)"
      by (simp add: spec_bisection_step_def Let_def)
    moreover from False have "\<not> fpos (Fin (maxProfit ?mid))" by simp
    note bisect_Suc_nonpos [where max_profit = max_profit and low = low and high = high and n = n,
        OF assms this]
    ultimately show ?thesis using step Suc.IH [of low ?mid] by simp
  qed
qed

section \<open>The objective on non-degenerate inputs\<close>

lemma alpha_spec_alpha: "alpha L r = spec_alpha L r"
  by (simp add: alpha_def spec_alpha_def)

lemma alpha_pos: "0 < L \<Longrightarrow> 0 < r \<Longrightarrow> 0 < alpha L r"
  by (simp add: alpha_def)

lemma neg_profit_spec_profit:
  "real_of_int L + a \<noteq> 0 \<Longrightarrow> neg_profit cfg L gp v phi a = Fin (- spec_profit cfg L gp v phi a)"
  by (simp add: neg_profit_def spec_profit_def c_gas_eth_def gasCostInValueUnits_def WEI_PER_UNIT_def)

lemma max_profit_returns:
  assumes "0 < L" "0 < r" "optimizer_returns minimize_scalar"
  shows "\<exists>p. max_profit_for_phi minimize_scalar cfg r L gp v phi = Inr p"
proof -
  from alpha_pos [OF assms(1,2)] have "alpha L r * 0.8 \<le> alpha L r * 1.2" by simp
  with assms(3) obtain m where
    "minimize_scalar (neg_profit cfg L gp v phi) (alpha L r * 0.8, alpha L r * 1.2) = Inr m"
    unfolding optimizer_returns_def by blast
  then show ?thesis by (simp add: max_profit_for_phi_def)
qed

text \<open>
  With an optimizer that returns the objective at a point inside the bounds, the value
  of \<^verbatim>\<open>max_profit_for_phi\<close> is the profit at an attack size inside the window.
\<close>

lemma max_profit_inside:
  assumes "0 < L" "0 < r" "evaluates_inside minimize_scalar"
  shows "\<exists>a. 0.8 * spec_alpha L r < a \<and> a < 1.2 * spec_alpha L r \<and>
             max_profit_for_phi minimize_scalar cfg r L gp v phi = Inr (Fin (spec_profit cfg L gp v phi a))"
proof -
  let ?x1 = "alpha L r * 0.8" and ?x2 = "alpha L r * 1.2"
  from alpha_pos [OF assms(1,2)] have b: "0 < ?x1" "?x1 < ?x2" by simp_all
  with assms(3) obtain a where a: "?x1 < a" "a < ?x2"
    and res: "minimize_scalar (neg_profit cfg L gp v phi) (?x1, ?x2) = Inr (neg_profit cfg L gp v phi a)"
    unfolding evaluates_inside_def by blast
  from a(1) b(1) assms(1) have "real_of_int L + a \<noteq> 0" by simp
  then have "neg_profit cfg L gp v phi a = Fin (- spec_profit cfg L gp v phi a)"
    by (rule neg_profit_spec_profit)
  with res have "max_profit_for_phi minimize_scalar cfg r L gp v phi = Inr (Fin (spec_profit cfg L gp v phi a))"
    by (simp add: max_profit_for_phi_def)
  with a show ?thesis
    by (auto simp: alpha_spec_alpha mult.commute)
qed




section \<open>The bracketing minimizer\<close>

lemma trisect_inside:
  "a < b \<Longrightarrow> \<exists>x. a < x \<and> x < b \<and> trisect n f a b = f x"
proof (induction n arbitrary: a b)
  case 0
  then show ?case by (intro exI [of _ "(a + b) / 2"]) simp
next
  case (Suc n)
  define x1 where "x1 = a + (b - a) / 3"
  define x2 where "x2 = b - (b - a) / 3"
  from Suc.prems have "a < x1 \<and> x1 < b \<and> a < x2 \<and> x2 < b"
    unfolding x1_def x2_def by argo
  then have o: "a < x1" "x1 < b" "a < x2" "x2 < b" by simp_all
  have unfold: "trisect (Suc n) f a b =
      (if fless (f x1) (f x2) then trisect n f a x2 else trisect n f x1 b)"
    by (simp add: Let_def x1_def x2_def)
  show ?case
  proof (cases "fless (f x1) (f x2)")
    case True
    from Suc.IH [OF o(3)] obtain x where x: "a < x" "x < x2" "trisect n f a x2 = f x" by blast
    from x(2) o(4) have "x < b" by simp
    with x True unfold show ?thesis by auto
  next
    case False
    from Suc.IH [OF o(2)] obtain x where x: "x1 < x" "x < b" "trisect n f x1 b = f x" by blast
    from x(1) o(1) have "a < x" by simp
    with x False unfold show ?thesis by auto
  qed
qed

lemma evaluates_inside_bracketing: "evaluates_inside bracketing_minimizer"
  unfolding evaluates_inside_def bracketing_minimizer_def
  using trisect_inside by auto

lemma optimizer_returns_bracketing: "optimizer_returns bracketing_minimizer"
  by (auto simp: optimizer_returns_def bracketing_minimizer_def)

section \<open>The solver called with zero liquidity\<close>

text \<open>
  \<^verbatim>\<open>sync_to_chain\<close> never calls the solver with zero liquidity. Called so all the
  same, the solver raises nothing: the window is the single point 0, the objective is
  NaN there, no comparison with NaN is true, and \<open>high\<close> is halved 20 times.
\<close>

lemma trisect_point: "trisect n f a a = f a"
  by (induction n) (simp_all add: Let_def)

lemma solve_phi_crit_zero_liquidity:
  "solve_phi_crit bracketing_minimizer cfg r 0 gp v = Inr (1048775 / 2097152000)"
proof -
  let ?mp = "max_profit_for_phi bracketing_minimizer cfg r 0 gp v"
  have "?mp phi = Inr NaN" for phi
    by (simp add: max_profit_for_phi_def bracketing_minimizer_def alpha_def trisect_point
        neg_profit_def)
  then have "\<exists>p. ?mp phi = Inr p \<and> \<not> fpos p" for phi
    by simp
  from bisect_none_profitable [of "0.0005" "0.1" ?mp "0.1" 20, OF this]
  have "bisect ?mp 20 0.0005 0.1 = Inr (0.0005 + (0.1 - 0.0005) / 2 ^ 20)" by simp
  moreover have "(0.0005::real) + (0.1 - 0.0005) / 2 ^ 20 = 1048775 / 2097152000"
    by simp
  ultimately show ?thesis by (simp add: solve_phi_crit_def)
qed

section \<open>The convergence scenario\<close>

lemma scenario_cfg_fields:
  "ratio_tiers scenario_cfg = [10, 50, 200]" "v_swap_nominal scenario_cfg = 10"
  by (simp_all add: scenario_cfg_def)

text \<open>In the scenario no attack of size 800 or more is profitable at a rate up to 0.1.\<close>

lemma scenario_profit_negative:
  assumes "800 \<le> a" and "phi \<le> 1 / 10"
  shows "spec_profit scenario_cfg 1000000 30000000000 10 phi a < 0"
proof -
  define q where "q = a / (1000000 + a)"
  define s where "s = a\<^sup>2"
  from assms(1) have q0: "0 \<le> q" by (simp add: q_def)
  have q1: "q \<le> a / 1000000"
    unfolding q_def using assms(1) by (intro divide_left_mono) simp_all
  from assms(2) q0 have g: "phi * q \<le> 1 / 10 * q" by (rule mult_right_mono)
  have "800 * a \<le> a * a" using assms(1) by (intro mult_right_mono) simp_all
  then have s1: "800 * a \<le> s" by (simp add: s_def power2_eq_square)
  have "spec_profit scenario_cfg 1000000 30000000000 10 phi a =
      phi * q * 10 - (9 / 1000 + 5 / 10 * (1 / 1000000) * s)"
    by (simp add: spec_profit_def scenario_cfg_def gasCostInValueUnits_def WEI_PER_UNIT_def
        q_def s_def)
  with g q1 s1 assms(1) show ?thesis by argo
qed

lemma scenario_never_profitable:
  assumes "evaluates_inside minimize_scalar" and "10 \<le> r" and "phi \<le> 1 / 10"
  shows "\<exists>p. max_profit_for_phi minimize_scalar scenario_cfg r 1000000 30000000000 10 phi = Inr (Fin p)
             \<and> p < 0"
proof -
  from assms(2) have r: "(0::int) < 1000000" "0 < r" by simp_all
  from max_profit_inside [OF r assms(1), of scenario_cfg 30000000000 10 phi]
  obtain a where a: "0.8 * spec_alpha 1000000 r < a"
    and res: "max_profit_for_phi minimize_scalar scenario_cfg r 1000000 30000000000 10 phi =
      Inr (Fin (spec_profit scenario_cfg 1000000 30000000000 10 phi a))"
    by blast
  from assms(2) have "(800::real) \<le> 80 * real_of_int r" by simp
  also have "\<dots> = 0.8 * spec_alpha 1000000 r" by (simp add: spec_alpha_def)
  finally have "800 \<le> a" using a by simp
  from scenario_profit_negative [OF this assms(3)] res show ?thesis by blast
qed



lemma scenario_solve:
  assumes "evaluates_inside minimize_scalar" and "10 \<le> r"
  shows "solve_phi_crit minimize_scalar scenario_cfg r 1000000 30000000000 10 =
         Inr (1048775 / 2097152000)"
proof -
  let ?mp = "max_profit_for_phi minimize_scalar scenario_cfg r 1000000 30000000000 10"
  have "\<exists>p. ?mp phi = Inr p \<and> \<not> fpos p" if "0.0005 < phi" "phi < 0.1" for phi
  proof -
    from that(2) have "phi \<le> 1 / 10" by simp
    from scenario_never_profitable [OF assms this] obtain p where
      "?mp phi = Inr (Fin p)" "p < 0" by blast
    then show ?thesis by (intro exI [of _ "Fin p"]) simp
  qed
  from bisect_none_profitable [of "0.0005" "0.1" ?mp "0.1" 20, OF this]
  have "bisect ?mp 20 0.0005 0.1 = Inr (0.0005 + (0.1 - 0.0005) / 2 ^ 20)" by simp
  moreover have "(0.0005::real) + (0.1 - 0.0005) / 2 ^ 20 = 1048775 / 2097152000"
    by simp
  ultimately show ?thesis by (simp add: solve_phi_crit_def)
qed

lemma scenario_sync:
  assumes "evaluates_inside minimize_scalar"
  shows "sync_to_chain minimize_scalar scenario_cfg (1000000, tick, 30000000000) =
   Inr (Some [\<lparr>thresholdRatioBps = 10, feePips = 500\<rparr>,
              \<lparr>thresholdRatioBps = 50, feePips = 500\<rparr>,
              \<lparr>thresholdRatioBps = 200, feePips = 500\<rparr>])"
proof -
  have "solve_phi_crit minimize_scalar scenario_cfg 10 1000000 30000000000 10 = Inr (1048775 / 2097152000)"
    "solve_phi_crit minimize_scalar scenario_cfg 50 1000000 30000000000 10 = Inr (1048775 / 2097152000)"
    "solve_phi_crit minimize_scalar scenario_cfg 200 1000000 30000000000 10 = Inr (1048775 / 2097152000)"
    by (rule scenario_solve [OF assms], simp)+
  then show ?thesis
    by (simp add: sync_to_chain_def scenario_cfg_fields py_int_def)
qed

lemma scenario_max_profit_eq:
  "max_profit_for_phi bracketing_minimizer scenario_cfg 50 1000000 30000000000 10 phi =
   Inr (Fin (scenario_max_profit phi))"
proof -
  have "(0::int) < 1000000" "(0::int) < 50" by simp_all
  from max_profit_inside [OF this evaluates_inside_bracketing, of scenario_cfg 30000000000 10 phi]
  show ?thesis by (auto simp: scenario_max_profit_def)
qed




section \<open>Bounds of the result\<close>

text \<open>
  C4. Whenever \<^verbatim>\<open>solve_phi_crit\<close> returns a value, the value lies in the closed
  interval from 0.0005 to 0.1. On a non-degenerate input (positive liquidity, positive
  ratio) and with an optimizer that returns on ordered bounds, it does return a value.
\<close>

theorem solve_phi_crit_bounded:
  "(\<forall>phi. solve_phi_crit minimize_scalar cfg r L gp v = Inr phi \<longrightarrow> 0.0005 \<le> phi \<and> phi \<le> 0.1)
   \<and> (0 < L \<and> 0 < r \<and> optimizer_returns minimize_scalar \<longrightarrow>
        (\<exists>phi. solve_phi_crit minimize_scalar cfg r L gp v = Inr phi))"
proof (intro conjI allI impI)
  fix phi
  assume "solve_phi_crit minimize_scalar cfg r L gp v = Inr phi"
  then have "0.0005 < phi \<and> phi \<le> 0.1"
    unfolding solve_phi_crit_def by (intro bisect_range) simp_all
  then show "0.0005 \<le> phi" and "phi \<le> 0.1" by simp_all
next
  assume "0 < L \<and> 0 < r \<and> optimizer_returns minimize_scalar"
  then have "\<And>phi. \<exists>p. max_profit_for_phi minimize_scalar cfg r L gp v phi = Inr p"
    by (simp add: max_profit_returns)
  then show "\<exists>phi. solve_phi_crit minimize_scalar cfg r L gp v = Inr phi"
    unfolding solve_phi_crit_def by (rule bisect_returns)
qed

theorem solve_phi_crit_bounded_witness:
  "(0::int) < 1000000 \<and> (0::int) < 50 \<and> optimizer_returns bracketing_minimizer \<and>
   solve_phi_crit bracketing_minimizer scenario_cfg 50 1000000 30000000000 10 =
     Inr (1048775 / 2097152000) \<and>
   (0.0005::real) \<le> 1048775 / 2097152000 \<and> (1048775 / 2097152000 :: real) \<le> 0.1"
  using solve_phi_crit_bounded [of bracketing_minimizer scenario_cfg 50 1000000 30000000000 10]
    optimizer_returns_bracketing scenario_solve [OF evaluates_inside_bracketing, of 50]
  by simp

text \<open>
  C10. A value returned by \<^verbatim>\<open>solve_phi_crit\<close> is strictly greater than the
  lower search bound 0.0005 (and at most 0.1): \<open>high\<close> is only ever assigned a
  midpoint, which is strictly above \<open>low\<close>, so 0.0005 itself is never returned.
\<close>

theorem solve_phi_crit_above_lower_bound:
  "solve_phi_crit minimize_scalar cfg r L gp v = Inr phi \<Longrightarrow> 0.0005 < phi \<and> phi \<le> 0.1"
  unfolding solve_phi_crit_def by (intro bisect_range) simp_all

theorem solve_phi_crit_above_lower_bound_witness:
  "solve_phi_crit bracketing_minimizer scenario_cfg 50 1000000 30000000000 10 =
     Inr (1048775 / 2097152000)
   \<and> (0.0005::real) < 1048775 / 2097152000 \<and> (1048775 / 2097152000 :: real) \<le> 0.1"
proof -
  have run: "solve_phi_crit bracketing_minimizer scenario_cfg 50 1000000 30000000000 10 =
     Inr (1048775 / 2097152000)"
    by (rule scenario_solve [OF evaluates_inside_bracketing]) simp
  from solve_phi_crit_above_lower_bound [OF run] run show ?thesis by simp
qed

section \<open>The loop is the bisection of the specification\<close>

text \<open>
  C2. When the inner maximisation returns the finite value \<open>maxProfit phi\<close> at every fee
  rate \<open>phi\<close>, \<^verbatim>\<open>solve_phi_crit\<close> returns the result of the bisection as the
  specification words it: 20 steps from \<open>(0.0005, 0.1)\<close>, each replacing \<open>low\<close> by the
  midpoint when \<open>maxProfit(mid) > 0\<close> and \<open>high\<close> otherwise, and then the final
  \<open>high\<close>.
\<close>

theorem solve_phi_crit_is_spec_bisection:
  assumes "\<And>phi. max_profit_for_phi minimize_scalar cfg r L gp v phi = Inr (Fin (maxProfit phi))"
  shows "solve_phi_crit minimize_scalar cfg r L gp v = Inr (spec_outer_search maxProfit)"
  unfolding solve_phi_crit_def spec_outer_search_def
  by (rule bisect_funpow) (rule assms)

theorem solve_phi_crit_is_spec_bisection_witness:
  "(\<forall>phi. max_profit_for_phi bracketing_minimizer scenario_cfg 50 1000000 30000000000 10 phi =
      Inr (Fin (scenario_max_profit phi))) \<and>
   solve_phi_crit bracketing_minimizer scenario_cfg 50 1000000 30000000000 10 =
     Inr (spec_outer_search scenario_max_profit)"
  using solve_phi_crit_is_spec_bisection [OF scenario_max_profit_eq] scenario_max_profit_eq
  by simp

section \<open>The fixed iteration count\<close>

text \<open>
  C9 as stated fails. With the ratio \<open>- 50\<close> the bounds of the inner search are in the
  wrong order, the library rejects them at the first call and the loop ends after one
  evaluation, with the exception.
\<close>

theorem twenty_iterations_counterexample:
  "solve_phi_crit_log bracketing_minimizer scenario_cfg (- 50) 1000000 30000000000 10 =
     ([201 / 4000], Inl ValueError) \<and>
   solve_phi_crit bracketing_minimizer scenario_cfg (- 50) 1000000 30000000000 10 = Inl ValueError"
proof -
  have "max_profit_for_phi bracketing_minimizer scenario_cfg (- 50) 1000000 30000000000 10 phi =
      Inl ValueError" for phi
    by (simp add: max_profit_for_phi_def bracketing_minimizer_def alpha_def)
  then show ?thesis
    by (simp add: solve_phi_crit_log_def solve_phi_crit_def eval_nat_numeral Let_def)
qed

text \<open>
  C9, amended. The outer search has a fixed iteration count of 20 and no tolerance test.
  The log of the loop ends with the result of \<^verbatim>\<open>solve_phi_crit\<close> and never has
  more than 20 evaluations of \<^verbatim>\<open>max_profit_for_phi\<close>. When the solver returns a
  value it has made exactly 20; when it raises, the exception is the one of the last
  evaluation logged. On a non-degenerate input (positive liquidity and ratio, an
  optimizer that returns on ordered bounds) it returns a value. When every evaluation
  returns a finite \<open>maxProfit\<close>, the 20 rates logged are the midpoints of the 20
  iterations of the bisection of the specification. Each evaluation is taken to return or
  raise: the inner search is the library's.
\<close>

theorem solve_phi_crit_twenty_iterations:
  "snd (solve_phi_crit_log minimize_scalar cfg r L gp v) = solve_phi_crit minimize_scalar cfg r L gp v
   \<and> length (fst (solve_phi_crit_log minimize_scalar cfg r L gp v)) \<le> 20
   \<and> (case solve_phi_crit minimize_scalar cfg r L gp v of
        Inr phi \<Rightarrow> length (fst (solve_phi_crit_log minimize_scalar cfg r L gp v)) = 20
      | Inl e \<Rightarrow> fst (solve_phi_crit_log minimize_scalar cfg r L gp v) \<noteq> [] \<and>
          max_profit_for_phi minimize_scalar cfg r L gp v
            (last (fst (solve_phi_crit_log minimize_scalar cfg r L gp v))) = Inl e)
   \<and> (0 < L \<and> 0 < r \<and> optimizer_returns minimize_scalar \<longrightarrow>
        (\<exists>phi. solve_phi_crit minimize_scalar cfg r L gp v = Inr phi))
   \<and> ((\<forall>phi. max_profit_for_phi minimize_scalar cfg r L gp v phi = Inr (Fin (maxProfit phi))) \<longrightarrow>
        fst (solve_phi_crit_log minimize_scalar cfg r L gp v) = map (spec_midpoint maxProfit) [0..<20])"
proof (intro conjI impI)
  show "snd (solve_phi_crit_log minimize_scalar cfg r L gp v) = solve_phi_crit minimize_scalar cfg r L gp v"
    by (simp add: solve_phi_crit_log_def solve_phi_crit_def snd_bisect_log)
  show "length (fst (solve_phi_crit_log minimize_scalar cfg r L gp v)) \<le> 20"
    unfolding solve_phi_crit_log_def by (rule length_bisect_log_le)
  show "case solve_phi_crit minimize_scalar cfg r L gp v of
        Inr phi \<Rightarrow> length (fst (solve_phi_crit_log minimize_scalar cfg r L gp v)) = 20
      | Inl e \<Rightarrow> fst (solve_phi_crit_log minimize_scalar cfg r L gp v) \<noteq> [] \<and>
          max_profit_for_phi minimize_scalar cfg r L gp v
            (last (fst (solve_phi_crit_log minimize_scalar cfg r L gp v))) = Inl e"
  proof (cases "solve_phi_crit minimize_scalar cfg r L gp v")
    case (Inl e)
    then show ?thesis
      using bisect_log_raised [of "max_profit_for_phi minimize_scalar cfg r L gp v" 20 "0.0005" "0.1" e]
      by (simp add: solve_phi_crit_def solve_phi_crit_log_def)
  next
    case (Inr phi)
    then show ?thesis
      using length_bisect_log_returned
        [of "max_profit_for_phi minimize_scalar cfg r L gp v" 20 "0.0005" "0.1" phi]
      by (simp add: solve_phi_crit_def solve_phi_crit_log_def)
  qed
next
  assume "0 < L \<and> 0 < r \<and> optimizer_returns minimize_scalar"
  then have "\<And>phi. \<exists>p. max_profit_for_phi minimize_scalar cfg r L gp v phi = Inr p"
    by (simp add: max_profit_returns)
  then show "\<exists>phi. solve_phi_crit minimize_scalar cfg r L gp v = Inr phi"
    unfolding solve_phi_crit_def by (rule bisect_returns)
next
  assume "\<forall>phi. max_profit_for_phi minimize_scalar cfg r L gp v phi = Inr (Fin (maxProfit phi))"
  then have "\<And>phi. max_profit_for_phi minimize_scalar cfg r L gp v phi = Inr (Fin (maxProfit phi))"
    by blast
  from bisect_log_midpoints [where n = 20 and low = "0.0005" and high = "0.1", OF this]
  show "fst (solve_phi_crit_log minimize_scalar cfg r L gp v) = map (spec_midpoint maxProfit) [0..<20]"
    unfolding solve_phi_crit_log_def spec_midpoint_def [abs_def] by simp
qed

theorem solve_phi_crit_twenty_iterations_witness:
  "(0::int) < 1000000 \<and> (0::int) < 50 \<and> optimizer_returns bracketing_minimizer \<and>
   (\<forall>phi. max_profit_for_phi bracketing_minimizer scenario_cfg 50 1000000 30000000000 10 phi =
      Inr (Fin (scenario_max_profit phi))) \<and>
   snd (solve_phi_crit_log bracketing_minimizer scenario_cfg 50 1000000 30000000000 10) =
     Inr (1048775 / 2097152000) \<and>
   length (fst (solve_phi_crit_log bracketing_minimizer scenario_cfg 50 1000000 30000000000 10)) = 20 \<and>
   fst (solve_phi_crit_log bracketing_minimizer scenario_cfg 50 1000000 30000000000 10) =
     map (spec_midpoint scenario_max_profit) [0..<20]"
  using solve_phi_crit_twenty_iterations
      [of bracketing_minimizer scenario_cfg 50 1000000 30000000000 10 scenario_max_profit]
    optimizer_returns_bracketing scenario_solve [OF evaluates_inside_bracketing, of 50]
    scenario_max_profit_eq
  by simp

section \<open>Tier aggregation\<close>

text \<open>The solver reads two entries of the configuration.\<close>

lemma solve_phi_crit_cong:
  assumes "jit_gas_usage cfg1 = jit_gas_usage cfg2" and "kappa cfg1 = kappa cfg2"
  shows "solve_phi_crit minimize_scalar cfg1 r L gp v = solve_phi_crit minimize_scalar cfg2 r L gp v"
proof -
  have "neg_profit cfg1 L gp v = neg_profit cfg2 L gp v"
    by (intro ext) (simp add: neg_profit_def c_gas_eth_def assms)
  then have "max_profit_for_phi minimize_scalar cfg1 r L gp v = max_profit_for_phi minimize_scalar cfg2 r L gp v"
    by (intro ext) (simp add: max_profit_for_phi_def)
  then show ?thesis by (simp add: solve_phi_crit_def)
qed

lemma tiers_loop_iff:
  "tiers_loop minimize_scalar cfg L gp rs acc = Inr out \<longleftrightarrow>
   (\<exists>entries. out = acc @ entries \<and> list_all2 (tier_entry minimize_scalar cfg L gp) rs entries)"
proof (induction rs arbitrary: acc)
  case Nil
  show ?case by auto
next
  case (Cons r rs)
  show ?case
  proof (cases "solve_phi_crit minimize_scalar cfg r L gp (v_swap_nominal cfg)")
    case (Inl e)
    then show ?thesis by (auto simp: list_all2_Cons1 tier_entry_def)
  next
    case (Inr phi)
    then show ?thesis
      by (auto simp: Cons.IH list_all2_Cons1 tier_entry_def)
  qed
qed

lemma tier_entry_cong:
  "tier_entry minimize_scalar (cfg\<lparr>ratio_tiers := ts\<rparr>) L gp r entry =
   tier_entry minimize_scalar cfg L gp r entry"
  using solve_phi_crit_cong [of "cfg\<lparr>ratio_tiers := ts\<rparr>" cfg minimize_scalar r L gp "v_swap_nominal cfg"]
  by (simp add: tier_entry_def)

lemma sync_to_chain_iff:
  "L \<noteq> 0 \<Longrightarrow>
   sync_to_chain minimize_scalar cfg (L, tick, gp) = Inr (Some payload) \<longleftrightarrow>
   list_all2 (tier_entry minimize_scalar cfg L gp) (ratio_tiers cfg) payload"
proof (cases "tiers_loop minimize_scalar cfg L gp (ratio_tiers cfg) []")
  case (Inl e)
  assume "L \<noteq> 0"
  moreover from Inl have "\<not> list_all2 (tier_entry minimize_scalar cfg L gp) (ratio_tiers cfg) payload"
    using tiers_loop_iff [of minimize_scalar cfg L gp "ratio_tiers cfg" "[]" payload] by simp
  ultimately show ?thesis using Inl by (simp add: sync_to_chain_def)
next
  case (Inr out)
  assume "L \<noteq> 0"
  moreover from Inr have "out = payload \<longleftrightarrow>
      list_all2 (tier_entry minimize_scalar cfg L gp) (ratio_tiers cfg) payload"
    using tiers_loop_iff [of minimize_scalar cfg L gp "ratio_tiers cfg" "[]" payload] by auto
  ultimately show ?thesis using Inr by (simp add: sync_to_chain_def)
qed

lemma sync_to_chain_single:
  "L \<noteq> 0 \<Longrightarrow>
   sync_to_chain minimize_scalar (cfg\<lparr>ratio_tiers := [r]\<rparr>) (L, tick, gp) = Inr (Some [entry]) \<longleftrightarrow>
   tier_entry minimize_scalar cfg L gp r entry"
  by (simp add: sync_to_chain_iff tier_entry_cong)

lemma tier_entry_ratio: "tier_entry minimize_scalar cfg L gp r entry \<Longrightarrow> thresholdRatioBps entry = r"
  by (auto simp: tier_entry_def)

text \<open>
  C7. With non-zero liquidity, \<^verbatim>\<open>sync_to_chain\<close> hands over the payload exactly
  when the payload has one record per configured tier, in the configured order
  (duplicates included: the ratios of the records are the configured list), and the
  record at each position is the one that a run on that tier alone, with the same pool
  state, hands over. The loop passes nothing from one tier to the next but the list
  built so far. (If the solver raises for one tier, the whole run raises and no list is
  handed over.)
\<close>

theorem sync_to_chain_tierwise:
  assumes "L \<noteq> 0"
  shows "sync_to_chain minimize_scalar cfg (L, tick, gp) = Inr (Some payload) \<longleftrightarrow>
         map thresholdRatioBps payload = ratio_tiers cfg \<and>
         (\<forall>i < length (ratio_tiers cfg).
            sync_to_chain minimize_scalar (cfg\<lparr>ratio_tiers := [ratio_tiers cfg ! i]\<rparr>) (L, tick, gp)
              = Inr (Some [payload ! i]))"
    (is "?lhs \<longleftrightarrow> ?ratios \<and> ?each")
proof
  assume ?lhs
  with assms have all: "list_all2 (tier_entry minimize_scalar cfg L gp) (ratio_tiers cfg) payload"
    by (simp add: sync_to_chain_iff)
  then have len: "length (ratio_tiers cfg) = length payload"
    by (rule list_all2_lengthD)
  from all have nth: "\<And>i. i < length payload \<Longrightarrow>
      tier_entry minimize_scalar cfg L gp (ratio_tiers cfg ! i) (payload ! i)"
    by (simp add: list_all2_conv_all_nth)
  have ?ratios
    by (rule nth_equalityI) (simp_all add: len tier_entry_ratio [OF nth])
  moreover have ?each
    using nth len assms by (simp add: sync_to_chain_single)
  ultimately show "?ratios \<and> ?each" ..
next
  assume r: "?ratios \<and> ?each"
  then have "length payload = length (ratio_tiers cfg)"
    by (metis length_map)
  moreover from r assms have "\<And>i. i < length (ratio_tiers cfg) \<Longrightarrow>
      tier_entry minimize_scalar cfg L gp (ratio_tiers cfg ! i) (payload ! i)"
    by (simp add: sync_to_chain_single)
  ultimately have "list_all2 (tier_entry minimize_scalar cfg L gp) (ratio_tiers cfg) payload"
    by (simp add: list_all2_conv_all_nth)
  with assms show ?lhs by (simp add: sync_to_chain_iff)
qed

theorem sync_to_chain_tierwise_witness:
  "(1000000::int) \<noteq> 0 \<and>
   sync_to_chain bracketing_minimizer scenario_cfg (1000000, 0, 30000000000) =
     Inr (Some [\<lparr>thresholdRatioBps = 10, feePips = 500\<rparr>,
                \<lparr>thresholdRatioBps = 50, feePips = 500\<rparr>,
                \<lparr>thresholdRatioBps = 200, feePips = 500\<rparr>]) \<and>
   sync_to_chain bracketing_minimizer (scenario_cfg\<lparr>ratio_tiers := [200]\<rparr>) (1000000, 0, 30000000000) =
     Inr (Some [\<lparr>thresholdRatioBps = 200, feePips = 500\<rparr>])"
proof -
  let ?payload = "[\<lparr>thresholdRatioBps = 10, feePips = 500\<rparr>,
      \<lparr>thresholdRatioBps = 50, feePips = 500\<rparr>, \<lparr>thresholdRatioBps = 200, feePips = 500\<rparr>]"
  have run: "sync_to_chain bracketing_minimizer scenario_cfg (1000000, 0, 30000000000) = Inr (Some ?payload)"
    by (rule scenario_sync [OF evaluates_inside_bracketing])
  have "(1000000::int) \<noteq> 0" by simp
  from sync_to_chain_tierwise [OF this, of bracketing_minimizer scenario_cfg 0 30000000000 ?payload] run
  have each: "\<forall>i < length (ratio_tiers scenario_cfg).
      sync_to_chain bracketing_minimizer (scenario_cfg\<lparr>ratio_tiers := [ratio_tiers scenario_cfg ! i]\<rparr>)
        (1000000, 0, 30000000000) = Inr (Some [?payload ! i])"
    by blast
  have "2 < length (ratio_tiers scenario_cfg)"
    by (simp add: scenario_cfg_fields)
  with each have "sync_to_chain bracketing_minimizer (scenario_cfg\<lparr>ratio_tiers := [ratio_tiers scenario_cfg ! 2]\<rparr>)
        (1000000, 0, 30000000000) = Inr (Some [?payload ! 2])"
    by blast
  with run show ?thesis by (simp add: scenario_cfg_fields)
qed

section \<open>Fee pips\<close>



section \<open>The inner maximisation\<close>




section \<open>The profit grows with the fee rate\<close>

text \<open>
  On positive inputs the profit at a positive attack size grows strictly with the fee
  rate, and so does its maximum over the window: it is never non-increasing in \<open>phi\<close>.
\<close>

lemma spec_profit_strict_mono_phi:
  assumes "0 < L" "0 < a" "0 < v" "phi1 < phi2"
  shows "spec_profit cfg L gp v phi1 a < spec_profit cfg L gp v phi2 a"
proof -
  from assms(1,2) have "0 < a / (real_of_int L + a)" by simp
  with assms(4) have "phi1 * (a / (real_of_int L + a)) < phi2 * (a / (real_of_int L + a))"
    by (rule mult_strict_right_mono)
  then have "phi1 * (a / (real_of_int L + a)) * v < phi2 * (a / (real_of_int L + a)) * v"
    using assms(3) by (rule mult_strict_right_mono)
  then show ?thesis by (simp add: spec_profit_def)
qed

lemma maximum_strict_mono_phi:
  assumes "0 < L" "0 < r" "0 < v" "phi1 < phi2"
    and "is_maximum_on (spec_profit cfg L gp v phi1) {0.8 * spec_alpha L r .. 1.2 * spec_alpha L r} m1"
    and "is_maximum_on (spec_profit cfg L gp v phi2) {0.8 * spec_alpha L r .. 1.2 * spec_alpha L r} m2"
  shows "m1 < m2"
proof -
  from assms(5) obtain a where a: "0.8 * spec_alpha L r \<le> a" "a \<le> 1.2 * spec_alpha L r"
    and m1: "spec_profit cfg L gp v phi1 a = m1"
    unfolding is_maximum_on_def by auto
  from alpha_pos [OF assms(1,2)] a(1) have "0 < a" by (simp add: alpha_spec_alpha)
  from spec_profit_strict_mono_phi [OF assms(1) this assms(3,4), of cfg gp] m1
  have "m1 < spec_profit cfg L gp v phi2 a" by simp
  also from assms(6) a have "\<dots> \<le> m2" unfolding is_maximum_on_def by auto
  finally show ?thesis .
qed

end
